theory Spec2Isabelle
  imports Main "HOL-Library.Sublist"
begin

section \<open>Python strings and paths\<close>

text \<open>
  The archive logic of \<^verbatim>\<open>src/main.py\<close> works on Python \<^verbatim>\<open>str\<close> values and on
  POSIX paths. The library functions it calls are written out here as they compute.
\<close>

type_synonym path = string

text \<open>\<^verbatim>\<open>s.endswith(suffix)\<close>: the last \<^verbatim>\<open>len(suffix)\<close> characters of \<^verbatim>\<open>s\<close> are compared.\<close>

definition endswith :: "string \<Rightarrow> string \<Rightarrow> bool" where
  "endswith s suf = (length suf \<le> length s \<and> drop (length s - length suf) s = suf)"

text \<open>\<^verbatim>\<open>s.replace(old, new)\<close>: every non-overlapping occurrence, left to right.\<close>

function replace :: "string \<Rightarrow> string \<Rightarrow> string \<Rightarrow> string" where
  "replace s old new =
     (if old = [] then new @ concat (map (\<lambda>c. c # new) s)
      else if s = [] then []
      else if take (length old) s = old then new @ replace (drop (length old) s) old new
      else hd s # replace (tl s) old new)"
  by pat_completeness auto
termination
  by (relation "measure (\<lambda>(s, old, new). length s)") auto

declare replace.simps [simp del]

text \<open>
  \<^verbatim>\<open>s.strip()\<close>: the characters of the ASCII range for which \<^verbatim>\<open>str.isspace\<close>
  holds are removed at both ends.
\<close>

definition isspace :: "char \<Rightarrow> bool" where
  "isspace c = (c \<in> {CHR '' '', CHR 0x09, CHR 0x0A, CHR 0x0B, CHR 0x0C, CHR 0x0D,
                        CHR 0x1C, CHR 0x1D, CHR 0x1E, CHR 0x1F})"

definition strip :: "string \<Rightarrow> string" where
  "strip s = rev (dropWhile isspace (rev (dropWhile isspace s)))"

text \<open>\<^verbatim>\<open>os.path.basename\<close>, \<^verbatim>\<open>os.path.dirname\<close> and \<^verbatim>\<open>os.path.join\<close> of posixpath.\<close>

definition basename :: "path \<Rightarrow> string" where
  "basename p = rev (takeWhile (\<lambda>c. c \<noteq> CHR ''/'') (rev p))"

definition rstrip_sep :: "string \<Rightarrow> string" where
  "rstrip_sep s = rev (dropWhile (\<lambda>c. c = CHR ''/'') (rev s))"

definition lstrip_sep :: "string \<Rightarrow> string" where
  "lstrip_sep s = dropWhile (\<lambda>c. c = CHR ''/'') s"

definition dirname :: "path \<Rightarrow> string" where
  "dirname p =
     (let head = rev (dropWhile (\<lambda>c. c \<noteq> CHR ''/'') (rev p))
      in if rstrip_sep head = [] then head else rstrip_sep head)"

definition join :: "path \<Rightarrow> path \<Rightarrow> path" where
  "join a b =
     (if b \<noteq> [] \<and> hd b = CHR ''/'' then b
      else if a = [] \<or> last a = CHR ''/'' then a @ b
      else a @ ''/'' @ b)"

text \<open>\<^verbatim>\<open>s.split('/')\<close> and \<^verbatim>\<open>'/'.join(parts)\<close>.\<close>

fun split_sep :: "string \<Rightarrow> string list" where
  "split_sep [] = [[]]"
| "split_sep (c # cs) =
     (if c = CHR ''/'' then [] # split_sep cs
      else (case split_sep cs of [] \<Rightarrow> [[c]] | x # xs \<Rightarrow> (c # x) # xs))"

fun sep_join :: "string list \<Rightarrow> string" where
  "sep_join [] = []"
| "sep_join [x] = x"
| "sep_join (x # y # rest) = x @ ''/'' @ sep_join (y # rest)"

text \<open>\<^verbatim>\<open>sub in s\<close> for strings.\<close>

fun contains :: "string \<Rightarrow> string \<Rightarrow> bool" where
  "contains sub [] = (sub = [])"
| "contains sub (c # cs) = (prefix sub (c # cs) \<or> contains sub cs)"

text \<open>
  \<^verbatim>\<open>os.path.normpath\<close>: empty and \<^verbatim>\<open>.\<close> components are dropped, \<^verbatim>\<open>..\<close> removes the
  component before it, and exactly two leading slashes are kept as two.
\<close>

definition norm_step :: "bool \<Rightarrow> string list \<Rightarrow> string \<Rightarrow> string list" where
  "norm_step rooted new_comps part =
     (if part = [] \<or> part = ''.'' then new_comps
      else if part \<noteq> ''..'' \<or> (\<not> rooted \<and> new_comps = []) \<or>
              (new_comps \<noteq> [] \<and> last new_comps = ''..'')
        then new_comps @ [part]
      else if new_comps \<noteq> [] then butlast new_comps
      else new_comps)"

definition normpath :: "path \<Rightarrow> path" where
  "normpath p =
     (if p = [] then ''.''
      else
        let initial_slashes =
              (if prefix ''/'' p then (if prefix ''//'' p \<and> \<not> prefix ''///'' p then 2 else 1)
               else (0::nat));
            comps = foldl (norm_step (0 < initial_slashes)) [] (split_sep p);
            q = replicate initial_slashes (CHR ''/'') @ sep_join comps
        in if q = [] then ''.'' else q)"

section \<open>Exceptions and message boxes\<close>

datatype exn =
    FileNotFoundError string
  | IsADirectoryError string
  | PermissionError string
  | ReadError string
  | BadZipFile string
  | BadGzipFile string
  | OSError string
  | ValueError string
  | RuntimeError string
  | FileExistsError string
  | KeyError string
  | RecursionError
  | ShutilError string
  | CalledProcessError
  | Exception string

text \<open>
  \<^verbatim>\<open>repr(s)\<close> of a string without backslashes and control characters: in double
  quotes when it holds a single quote and no double quote, in single quotes otherwise.
\<close>

definition py_repr :: "string \<Rightarrow> string" where
  "py_repr s =
     (if CHR 0x27 \<in> set s \<and> CHR 0x22 \<notin> set s then [CHR 0x22] @ s @ [CHR 0x22]
      else [CHR 0x27] @ s @ [CHR 0x27])"

text \<open>
  \<^verbatim>\<open>str(e)\<close>, the text the message boxes show. An operating system error names the
  path in quotes; the text of a \<^verbatim>\<open>KeyError\<close> is the \<^verbatim>\<open>repr\<close> of its argument.
\<close>

fun str :: "exn \<Rightarrow> string" where
  "str (FileNotFoundError p) = ''[Errno 2] No such file or directory: '' @ py_repr p"
| "str (IsADirectoryError p) = ''[Errno 21] Is a directory: '' @ py_repr p"
| "str (PermissionError p) = ''[Errno 13] Permission denied: '' @ py_repr p"
| "str (ReadError m) = m"
| "str (BadZipFile m) = m"
| "str (BadGzipFile m) = m"
| "str (OSError m) = m"
| "str (ValueError m) = m"
| "str (RuntimeError m) = m"
| "str (FileExistsError p) = ''[Errno 17] File exists: '' @ py_repr p"
| "str (KeyError k) = py_repr k"
| "str RecursionError = ''maximum recursion depth exceeded''"
| "str (ShutilError m) = m"
| "str CalledProcessError = ''Command returned non-zero exit status.''"
| "str (Exception m) = m"

datatype msgbox =
    Information string string
  | Warning string string
  | Critical string string

section \<open>The exclusion filter\<close>

text \<open>
  \<^verbatim>\<open>_should_exclude(self, filename, exclude_ext)\<close>. The argument is tested with
  \<^verbatim>\<open>not exclude_ext\<close>, which holds for \<^verbatim>\<open>None\<close> and for the empty string alike; the
  pattern is therefore an optional string.
\<close>

fun should_exclude :: "string \<Rightarrow> string option \<Rightarrow> bool" where
  "should_exclude filename None = False"
| "should_exclude filename (Some exclude_ext) =
     (if exclude_ext = [] then False else endswith filename exclude_ext)"

section \<open>Files, archives and the environment\<close>

text \<open>
  A file is represented by what its bytes decode to: plain bytes, a stream compressed by
  one of the three codecs, a tar archive (its members in order), a tar archive cut short
  within the data of its last member (the members before it, then that member), or a zip
  archive (its encryption and its entries in order). A tar member is a file or a
  directory, with its name and its data, or a link, symbolic or hard, with its name and
  the name it points to.
\<close>

datatype compressor = Gzip | Bzip2 | Lzma

datatype encryption = WZ_AES string | ZipCrypto string

datatype content =
    Raw string
  | Packed compressor content
  | Tar "tarinfo list"
  | TarCut "tarinfo list" tarinfo
  | Zip "encryption option" "zipinfo list"
and tarinfo =
    TarInfo string bool content
  | TarLink string bool string
and zipinfo = ZipInfo (zip_filename: string) (zip_data: content)

text \<open>
  The attributes of a member: \<^verbatim>\<open>name\<close>, \<^verbatim>\<open>isdir()\<close>, \<^verbatim>\<open>issym()\<close>,
  \<^verbatim>\<open>linkname\<close>, and the data that follows its header in the archive (none for a
  directory or a link).
\<close>

fun name :: "tarinfo \<Rightarrow> string" where
  "name (TarInfo n d c) = n"
| "name (TarLink n s l) = n"

fun isdir :: "tarinfo \<Rightarrow> bool" where
  "isdir (TarInfo n d c) = d"
| "isdir (TarLink n s l) = False"

fun islink :: "tarinfo \<Rightarrow> bool" where
  "islink (TarInfo n d c) = False"
| "islink (TarLink n s l) = True"

fun issym :: "tarinfo \<Rightarrow> bool" where
  "issym (TarInfo n d c) = False"
| "issym (TarLink n s l) = s"

fun linkname :: "tarinfo \<Rightarrow> string" where
  "linkname (TarInfo n d c) = []"
| "linkname (TarLink n s l) = l"

fun payload :: "tarinfo \<Rightarrow> content" where
  "payload (TarInfo n d c) = c"
| "payload (TarLink n s l) = Raw []"

text \<open>
  The file system maps a path to the object found there. A directory is given with its
  listing (the names in sorted order, each with the object below it), which is what
  \<^verbatim>\<open>os.walk\<close> and \<^verbatim>\<open>TarFile.add\<close> descend into; the order in which the
  operating system lists a directory is taken to be the sorted one. The file system
  holds no links and refuses to create one, as a FAT volume does: two different paths
  never name the same file.
\<close>

datatype node = File content | Dir "(string \<times> node) list"

type_synonym fs = "path \<rightharpoonup> node"

text \<open>
  What the program cannot decide from its arguments is a parameter: whether the optional
  \<^verbatim>\<open>pyzipper\<close> import succeeded; the working directory; which paths the operating
  system refuses to open (permissions, a missing parent directory); which renames
  (\<^verbatim>\<open>os.rename\<close> of one path onto another) and which removals (\<^verbatim>\<open>os.unlink\<close>) it
  refuses; the text of the library's error for a file whose bytes are not of the format
  asked for (it depends on bytes that the representation of a file does not keep:
  \<^verbatim>\<open>truncated header\<close>, \<^verbatim>\<open>invalid header\<close>, \<^verbatim>\<open>bad checksum\<close>,
  \<^verbatim>\<open>Not a gzipped file (b'..')\<close>); and the external \<^verbatim>\<open>zip\<close> program (absent, or a
  function from its argument vector and the file system to an exit status and the file
  system it leaves).
\<close>

record env =
  HAS_PYZIPPER :: bool
  cwd :: path
  denied :: "path \<Rightarrow> bool"
  rename_refused :: "path \<Rightarrow> path \<Rightarrow> bool"
  unlink_refused :: "path \<Rightarrow> bool"
  format_error :: "path \<Rightarrow> string"
  zip_exe :: "(string list \<Rightarrow> fs \<Rightarrow> int \<times> fs) option"

text \<open>\<^verbatim>\<open>open(p, 'rb')\<close>: the content of the file at \<open>p\<close>, or the exception raised.\<close>

definition open_rb :: "env \<Rightarrow> fs \<Rightarrow> path \<Rightarrow> exn + content" where
  "open_rb ev fs p =
     (case fs p of
        None \<Rightarrow> Inl (FileNotFoundError p)
      | Some (Dir kids) \<Rightarrow> Inl (IsADirectoryError p)
      | Some (File c) \<Rightarrow> if denied ev p then Inl (PermissionError p) else Inr c)"

text \<open>
  Opening \<open>p\<close> for writing (\<^verbatim>\<open>'wb'\<close>, \<^verbatim>\<open>'w'\<close>): the exception raised, if any. When
  there is none the file exists from then on, empty until it is written.
\<close>

definition open_wb :: "env \<Rightarrow> fs \<Rightarrow> path \<Rightarrow> exn option" where
  "open_wb ev fs p =
     (if p = [] then Some (FileNotFoundError p)
      else if last p = CHR ''/'' then Some (IsADirectoryError p)
      else case fs p of
             Some (Dir kids) \<Rightarrow> Some (IsADirectoryError p)
           | _ \<Rightarrow> if denied ev p then Some (PermissionError p) else None)"

text \<open>
  An archive opened for reading: its members, and whether the data of the last one is
  cut short. Opening reads the first header only; \<^verbatim>\<open>getmembers()\<close> scans the whole
  archive and raises \<^verbatim>\<open>ReadError\<close> on one that is cut short.
\<close>

datatype tarfile = TarFile (tf_members: "tarinfo list") (tf_cut: bool)

definition tar_decode :: "env \<Rightarrow> path \<Rightarrow> content \<Rightarrow> exn + tarfile" where
  "tar_decode ev p c =
     (case c of
        Tar ms \<Rightarrow> Inr (TarFile ms False)
      | TarCut ms m \<Rightarrow> Inr (TarFile (ms @ [m]) True)
      | Raw [] \<Rightarrow> Inl (ReadError ''empty file'')
      | _ \<Rightarrow> Inl (ReadError (format_error ev p)))"

definition getmembers :: "tarfile \<Rightarrow> exn + tarinfo list" where
  "getmembers tf =
     (if tf_cut tf then Inl (ReadError ''unexpected end of data'') else Inr (tf_members tf))"

text \<open>\<^verbatim>\<open>tarfile.open(p, 'r:')\<close>: an uncompressed tar archive, or \<^verbatim>\<open>ReadError\<close>.\<close>

definition tarfile_open_r :: "env \<Rightarrow> fs \<Rightarrow> path \<Rightarrow> exn + tarfile" where
  "tarfile_open_r ev fs p =
     (case open_rb ev fs p of
        Inl e \<Rightarrow> Inl e
      | Inr c \<Rightarrow> tar_decode ev p c)"

text \<open>\<^verbatim>\<open>os.path.abspath\<close> and \<^verbatim>\<open>os.path.relpath\<close>.\<close>

definition abspath :: "env \<Rightarrow> path \<Rightarrow> path" where
  "abspath ev p = normpath (if prefix ''/'' p then p else join (cwd ev) p)"

definition relpath :: "env \<Rightarrow> path \<Rightarrow> path \<Rightarrow> exn + path" where
  "relpath ev p start =
     (if p = [] then Inl (ValueError ''no path specified'')
      else
        let start_tail = lstrip_sep (abspath ev start);
            path_tail = lstrip_sep (abspath ev p);
            start_list = (if start_tail = [] then [] else split_sep start_tail);
            path_list = (if path_tail = [] then [] else split_sep path_tail);
            i = length (longest_common_prefix start_list path_list);
            rel_list = replicate (length start_list - i) ''..'' @ drop i path_list
        in Inr (if rel_list = [] then ''.'' else foldl join (hd rel_list) (tl rel_list)))"

text \<open>
  \<^verbatim>\<open>os.walk(root)\<close>, top down: for a directory its path, the names of its
  subdirectories and its files (each with its content, which is what is read at
  \<^verbatim>\<open>os.path.join(root, filename)\<close>), then the same for each subdirectory.
\<close>

fun walk :: "path \<Rightarrow> (string \<times> node) list \<Rightarrow> (path \<times> string list \<times> (string \<times> content) list) list"
and walk_dirs :: "path \<Rightarrow> (string \<times> node) list \<Rightarrow> (path \<times> string list \<times> (string \<times> content) list) list"
where
  "walk root kids =
     (root, concat (map (\<lambda>(n, k). case k of Dir ks \<Rightarrow> [n] | File c \<Rightarrow> []) kids),
            concat (map (\<lambda>(n, k). case k of Dir ks \<Rightarrow> [] | File c \<Rightarrow> [(n, c)]) kids))
     # walk_dirs root kids"
| "walk_dirs root [] = []"
| "walk_dirs root ((n, File c) # rest) = walk_dirs root rest"
| "walk_dirs root ((n, Dir ks) # rest) = walk (join root n) ks @ walk_dirs root rest"

section \<open>Writing a zip archive\<close>

text \<open>
  \<^verbatim>\<open>zf.write(filename, arcname)\<close> for the object \<open>nd\<close> found at \<open>filename\<close>: leading
  slashes are removed from the archive name, a directory gets a trailing slash and no
  data, a file is read. \<open>zf\<close> is the list of entries written so far.
\<close>

definition zf_write :: "env \<Rightarrow> path \<Rightarrow> node \<Rightarrow> string \<Rightarrow> zipinfo list \<Rightarrow> (exn + unit) \<times> zipinfo list" where
  "zf_write ev filename nd arcname zf =
     (case nd of
        Dir kids \<Rightarrow> (Inr (), zf @ [ZipInfo (lstrip_sep (normpath arcname) @ ''/'') (Raw [])])
      | File c \<Rightarrow>
          if denied ev filename then (Inl (PermissionError filename), zf)
          else (Inr (), zf @ [ZipInfo (lstrip_sep (normpath arcname)) c]))"

text \<open>The inner loop of \<^verbatim>\<open>_write_to_zip\<close> over the file names of one directory.\<close>

fun write_filenames :: "env \<Rightarrow> path \<Rightarrow> string option \<Rightarrow> path \<Rightarrow> (string \<times> content) list \<Rightarrow> zipinfo list
    \<Rightarrow> (exn + unit) \<times> zipinfo list" where
  "write_filenames ev f exclude root [] zf = (Inr (), zf)"
| "write_filenames ev f exclude root ((filename, c) # rest) zf =
     (if \<not> should_exclude filename exclude then
        (let filepath = join root filename in
         case relpath ev filepath (dirname f) of
           Inl e \<Rightarrow> (Inl e, zf)
         | Inr arcname \<Rightarrow>
             (case zf_write ev filepath (File c) arcname zf of
                (Inl e, zf') \<Rightarrow> (Inl e, zf')
              | (Inr u, zf') \<Rightarrow> write_filenames ev f exclude root rest zf'))
      else write_filenames ev f exclude root rest zf)"

text \<open>The loop over the triples of \<^verbatim>\<open>os.walk(f)\<close>.\<close>

fun write_walk :: "env \<Rightarrow> path \<Rightarrow> string option \<Rightarrow> (path \<times> string list \<times> (string \<times> content) list) list
    \<Rightarrow> zipinfo list \<Rightarrow> (exn + unit) \<times> zipinfo list" where
  "write_walk ev f exclude [] zf = (Inr (), zf)"
| "write_walk ev f exclude ((root, dirs, filenames) # rest) zf =
     (case write_filenames ev f exclude root filenames zf of
        (Inl e, zf') \<Rightarrow> (Inl e, zf')
      | (Inr u, zf') \<Rightarrow> write_walk ev f exclude rest zf')"

text \<open>
  \<^verbatim>\<open>_write_to_zip(self, zf, files, recursive, exclude)\<close>. A path that is neither a
  file nor a directory is passed over.
\<close>

fun write_to_zip :: "env \<Rightarrow> fs \<Rightarrow> zipinfo list \<Rightarrow> path list \<Rightarrow> bool \<Rightarrow> string option
    \<Rightarrow> (exn + unit) \<times> zipinfo list" where
  "write_to_zip ev fs zf [] recursive exclude = (Inr (), zf)"
| "write_to_zip ev fs zf (f # files) recursive exclude =
     (case fs f of
        Some (File c) \<Rightarrow>
          if \<not> should_exclude f exclude then
            (case zf_write ev f (File c) (basename f) zf of
               (Inl e, zf') \<Rightarrow> (Inl e, zf')
             | (Inr u, zf') \<Rightarrow> write_to_zip ev fs zf' files recursive exclude)
          else write_to_zip ev fs zf files recursive exclude
      | Some (Dir kids) \<Rightarrow>
          if recursive then
            (case write_walk ev f exclude (walk f kids) zf of
               (Inl e, zf') \<Rightarrow> (Inl e, zf')
             | (Inr u, zf') \<Rightarrow> write_to_zip ev fs zf' files recursive exclude)
          else
            (case zf_write ev f (Dir kids) (basename f) zf of
               (Inl e, zf') \<Rightarrow> (Inl e, zf')
             | (Inr u, zf') \<Rightarrow> write_to_zip ev fs zf' files recursive exclude)
      | None \<Rightarrow> write_to_zip ev fs zf files recursive exclude)"

text \<open>
  A \<^verbatim>\<open>with\<close> block that opens a zip archive at \<open>dest\<close> for writing and runs
  \<^verbatim>\<open>_write_to_zip\<close> in it. Opening truncates \<open>dest\<close>, which is what a read of the
  same path then sees. Leaving the block closes the archive with the entries written,
  after an exception too.
\<close>

definition zip_block :: "env \<Rightarrow> encryption option \<Rightarrow> path list \<Rightarrow> path \<Rightarrow> bool \<Rightarrow> string option \<Rightarrow> fs
    \<Rightarrow> (exn + unit) \<times> fs" where
  "zip_block ev enc files dest recursive exclude fs =
     (case open_wb ev fs dest of
        Some e \<Rightarrow> (Inl e, fs)
      | None \<Rightarrow>
          (case write_to_zip ev (fs(dest \<mapsto> File (Raw []))) [] files recursive exclude of
             (r, zf) \<Rightarrow> (r, fs(dest \<mapsto> File (Zip enc zf)))))"

text \<open>
  \<^verbatim>\<open>subprocess.run(cmd, check=True)\<close> for a command whose program is \<^verbatim>\<open>zip\<close>.
\<close>

definition subprocess_run :: "env \<Rightarrow> string list \<Rightarrow> fs \<Rightarrow> (exn + unit) \<times> fs" where
  "subprocess_run ev cmd fs =
     (case zip_exe ev of
        None \<Rightarrow> (Inl (FileNotFoundError ''zip''), fs)
      | Some exe \<Rightarrow>
          (case exe cmd fs of
             (rc, fs') \<Rightarrow> (if rc = 0 then Inr () else Inl CalledProcessError, fs')))"

text \<open>
  The handlers of the second strategy: \<^verbatim>\<open>FileNotFoundError\<close> and
  \<^verbatim>\<open>CalledProcessError\<close> are replaced by an \<^verbatim>\<open>Exception\<close> with a fixed text, any
  other exception passes.
\<close>

fun system_zip_handler :: "exn \<Rightarrow> exn" where
  "system_zip_handler (FileNotFoundError p) =
     Exception ''System 'zip' command not found. Please install 'pyzipper' via pip for password support.''"
| "system_zip_handler CalledProcessError =
     Exception ''System zip command failed. Ensure you have permissions.''"
| "system_zip_handler e = e"

text \<open>
  \<^verbatim>\<open>create_zip(self, files, dest, pwd, recursive, exclude)\<close>, its three strategies in
  order: \<^verbatim>\<open>pyzipper\<close> when it is installed and a password is given, the system's
  \<^verbatim>\<open>zip\<close> command when a password is given, the standard \<^verbatim>\<open>zipfile\<close> otherwise.
\<close>

definition create_zip :: "env \<Rightarrow> path list \<Rightarrow> path \<Rightarrow> string \<Rightarrow> bool \<Rightarrow> string option \<Rightarrow> fs
    \<Rightarrow> (exn + unit) \<times> fs" where
  "create_zip ev files dest pwd recursive exclude fs =
     (if HAS_PYZIPPER ev \<and> pwd \<noteq> [] then
        (case zip_block ev (Some (WZ_AES pwd)) files dest recursive exclude fs of
           (Inr u, fs') \<Rightarrow> (Inr (), fs')
         | (Inl e, fs') \<Rightarrow> (Inl (Exception (''pyzipper error: '' @ str e)), fs'))
      else if pwd \<noteq> [] then
        (case subprocess_run ev [''zip'', ''-h''] fs of
           (Inl e, fs') \<Rightarrow> (Inl (system_zip_handler e), fs')
         | (Inr u, fs') \<Rightarrow>
             (let cmd = (if \<not> recursive then [''zip'', ''-P'', pwd, ''-j'', dest] @ files
                         else [''zip'', ''-P'', pwd, ''-r'', dest] @ files)
              in case subprocess_run ev cmd fs' of
                   (Inl e, fs'') \<Rightarrow> (Inl (system_zip_handler e), fs'')
                 | (Inr u, fs'') \<Rightarrow> (Inr (), fs'')))
      else zip_block ev None files dest recursive exclude fs)"

section \<open>Writing a tar archive\<close>

text \<open>
  The closure \<^verbatim>\<open>tar_filter\<close> that \<^verbatim>\<open>create_tar\<close> defines for the input path \<open>f\<close>:
  without \<open>recursive\<close> a directory other than the one named \<^verbatim>\<open>os.path.basename(f)\<close>
  is dropped, and so is every entry whose name is excluded.
\<close>

definition tar_filter :: "bool \<Rightarrow> string option \<Rightarrow> path \<Rightarrow> tarinfo \<Rightarrow> tarinfo option" where
  "tar_filter recursive exclude f tarinfo =
     (if \<not> recursive \<and> isdir tarinfo \<and> name tarinfo \<noteq> basename f then None
      else if should_exclude (name tarinfo) exclude then None
      else Some tarinfo)"

text \<open>
  \<^verbatim>\<open>TarFile.add(name, arcname, filter=flt)\<close> for the object \<open>nd\<close> found at the path:
  the archive itself (\<open>self_name\<close>, the absolute path it was opened under) is skipped;
  the member is built with its name stripped of leading slashes and passed to the filter;
  a member the filter drops is left out, with everything below it; a file is read and
  added; a directory is added and then, \<^verbatim>\<open>recursive\<close> being left at its default
  \<^verbatim>\<open>True\<close>, each entry of its sorted listing is added in turn under the joined
  names.
\<close>

fun tar_add :: "env \<Rightarrow> path \<Rightarrow> (tarinfo \<Rightarrow> tarinfo option) \<Rightarrow> path \<Rightarrow> node \<Rightarrow> string \<Rightarrow> tarinfo list
    \<Rightarrow> (exn + unit) \<times> tarinfo list"
and tar_add_listing :: "env \<Rightarrow> path \<Rightarrow> (tarinfo \<Rightarrow> tarinfo option) \<Rightarrow> path \<Rightarrow> (string \<times> node) list \<Rightarrow> string
    \<Rightarrow> tarinfo list \<Rightarrow> (exn + unit) \<times> tarinfo list"
where
  "tar_add ev self_name flt path (File c) arcname tf =
     (if abspath ev path = self_name then (Inr (), tf)
      else case flt (TarInfo (lstrip_sep arcname) False c) of
             None \<Rightarrow> (Inr (), tf)
           | Some tarinfo \<Rightarrow>
               if denied ev path then (Inl (PermissionError path), tf)
               else (Inr (), tf @ [tarinfo]))"
| "tar_add ev self_name flt path (Dir kids) arcname tf =
     (if abspath ev path = self_name then (Inr (), tf)
      else case flt (TarInfo (lstrip_sep arcname) True (Raw [])) of
             None \<Rightarrow> (Inr (), tf)
           | Some tarinfo \<Rightarrow> tar_add_listing ev self_name flt path kids arcname (tf @ [tarinfo]))"
| "tar_add_listing ev self_name flt path [] arcname tf = (Inr (), tf)"
| "tar_add_listing ev self_name flt path ((f, nd) # rest) arcname tf =
     (case tar_add ev self_name flt (join path f) nd (join arcname f) tf of
        (Inl e, tf') \<Rightarrow> (Inl e, tf')
      | (Inr u, tf') \<Rightarrow> tar_add_listing ev self_name flt path rest arcname tf')"

text \<open>The loop of \<^verbatim>\<open>create_tar\<close> over the input paths.\<close>

fun tar_files :: "env \<Rightarrow> fs \<Rightarrow> path \<Rightarrow> bool \<Rightarrow> string option \<Rightarrow> path list \<Rightarrow> tarinfo list
    \<Rightarrow> (exn + unit) \<times> tarinfo list" where
  "tar_files ev fs self_name recursive exclude [] tf = (Inr (), tf)"
| "tar_files ev fs self_name recursive exclude (f # files) tf =
     (if should_exclude f exclude then tar_files ev fs self_name recursive exclude files tf
      else
        (case fs f of
           None \<Rightarrow>
             if abspath ev f = self_name
             then tar_files ev fs self_name recursive exclude files tf
             else (Inl (FileNotFoundError f), tf)
         | Some nd \<Rightarrow>
             (case tar_add ev self_name (tar_filter recursive exclude f) f nd (basename f) tf of
                (Inl e, tf') \<Rightarrow> (Inl e, tf')
              | (Inr u, tf') \<Rightarrow> tar_files ev fs self_name recursive exclude files tf')))"

text \<open>
  \<^verbatim>\<open>create_tar(self, files, dest, mode, recursive, exclude)\<close> with the one mode it is
  called with, \<^verbatim>\<open>"w"\<close>. Leaving the \<^verbatim>\<open>with\<close> block closes the archive with the
  members written, after an exception too.
\<close>

definition create_tar :: "env \<Rightarrow> path list \<Rightarrow> path \<Rightarrow> bool \<Rightarrow> string option \<Rightarrow> fs \<Rightarrow> (exn + unit) \<times> fs" where
  "create_tar ev files dest recursive exclude fs =
     (case open_wb ev fs dest of
        Some e \<Rightarrow> (Inl e, fs)
      | None \<Rightarrow>
          (case tar_files ev (fs(dest \<mapsto> File (Raw []))) (abspath ev dest) recursive exclude files [] of
             (r, tf) \<Rightarrow> (r, fs(dest \<mapsto> File (Tar tf)))))"

section \<open>Compressing a single file\<close>

text \<open>
  \<^verbatim>\<open>create_single_compress(self, input_file, dest, open_func)\<close>; \<open>open_func\<close> is one
  of \<^verbatim>\<open>gzip.open\<close>, \<^verbatim>\<open>bz2.open\<close> and \<^verbatim>\<open>lzma.open\<close>. The input is opened first,
  then the output, which truncates it.
\<close>

definition create_single_compress :: "env \<Rightarrow> path \<Rightarrow> path \<Rightarrow> compressor \<Rightarrow> fs \<Rightarrow> (exn + unit) \<times> fs" where
  "create_single_compress ev input_file dest open_func fs =
     (case open_rb ev fs input_file of
        Inl e \<Rightarrow> (Inl e, fs)
      | Inr c \<Rightarrow>
          (case open_wb ev fs dest of
             Some e \<Rightarrow> (Inl e, fs)
           | None \<Rightarrow>
               (Inr (), fs(dest \<mapsto> File (Packed open_func (if dest = input_file then Raw [] else c))))))"

section \<open>The application's widgets\<close>

text \<open>
  The fields of \<^verbatim>\<open>IArchiveApp\<close> that the archive logic reads or writes: the text of
  each line edit, the items of the drag-and-drop list, the selected format, and for the
  table of the manage tab the text of column 0 of its current row (\<open>None\<close> when
  \<^verbatim>\<open>currentRow()\<close> is -1).
\<close>

record app =
  file_list :: "string list"
  combo_format :: string
  destination_path :: string
  line_password :: string
  check_recursive :: bool
  line_exclude :: string
  status_label :: string
  line_extract_src :: string
  line_extract_dest :: string
  line_extract_exclude :: string
  line_manage_path :: string
  current_row_name :: "string option"

section \<open>Creating an archive from the list of inputs\<close>

text \<open>
  \<^verbatim>\<open>FORMAT_CONFIG\<close>: for each format name its extension, its type and whether it
  takes several inputs.
\<close>

definition FORMAT_CONFIG :: "(string \<times> string \<times> string \<times> bool) list" where
  "FORMAT_CONFIG =
     [(''Tar'', ''.tar'', ''archive'', True),
      (''Zip'', ''.zip'', ''compressed_archive'', True),
      (''Gzip'', ''.gz'', ''compress_only'', False),
      (''Bzip2'', ''.bz2'', ''compress_only'', False),
      (''Xz'', ''.xz'', ''compress_only'', False),
      (''7z'', ''.7z'', ''compressed_archive'', True),
      (''Rar'', ''.rar'', ''compressed_archive'', True)]"

text \<open>\<^verbatim>\<open>FORMAT_CONFIG[fmt]["multi"]\<close>.\<close>

definition config_multi :: "string \<Rightarrow> exn + bool" where
  "config_multi fmt =
     (case map_of FORMAT_CONFIG fmt of
        None \<Rightarrow> Inl (KeyError fmt)
      | Some (ext, type, multi) \<Rightarrow> Inr multi)"


text \<open>
  \<^verbatim>\<open>DragDropListWidget.add_file_item\<close> appends a path that is not yet an item, and
  \<^verbatim>\<open>dropEvent\<close> does so for every dropped file, whatever the selected format.
\<close>

definition add_file_item :: "app \<Rightarrow> path \<Rightarrow> app" where
  "add_file_item a p =
     (if p \<notin> set (file_list a) then a\<lparr>file_list := file_list a @ [p]\<rparr> else a)"

definition dropEvent :: "app \<Rightarrow> path list \<Rightarrow> app" where
  "dropEvent a files = foldl add_file_item a files"

text \<open>
  \<^verbatim>\<open>add_files_action\<close>, \<open>files\<close> being the selection of the file dialog: a format
  that takes one input refuses a second file and a selection of several.
\<close>

definition add_files_action :: "app \<Rightarrow> path list \<Rightarrow> exn + msgbox list \<times> app" where
  "add_files_action a files =
     (let fmt = combo_format a in
      case config_multi fmt of
        Inl e \<Rightarrow> Inl e
      | Inr allow_multi \<Rightarrow>
          if files \<noteq> [] then
            (if \<not> allow_multi \<and> (0 < length (file_list a) \<or> 1 < length files)
             then Inr ([Critical ''Error'' (fmt @ '' allows only ONE input file.'')], a)
             else Inr ([], foldl add_file_item a files))
          else Inr ([], a))"

text \<open>
  \<^verbatim>\<open>on_format_changed\<close>: selecting a format that takes one input while the list
  holds several clears the list.
\<close>

definition on_format_changed :: "app \<Rightarrow> string \<Rightarrow> exn + msgbox list \<times> app" where
  "on_format_changed a text' =
     (case config_multi text' of
        Inl e \<Rightarrow> Inl e
      | Inr multi \<Rightarrow>
          if \<not> multi \<and> 1 < length (file_list a)
          then Inr ([Warning ''Restriction'' (text' @ '' only supports single file compression.'')],
                    a\<lparr>combo_format := text', file_list := []\<rparr>)
          else Inr ([], a\<lparr>combo_format := text'\<rparr>))"

text \<open>
  \<^verbatim>\<open>process_archive_action\<close>: the message boxes shown, the widgets and the file system
  afterwards. The exclusion pattern is the stripped text of its line edit.
\<close>

definition process_archive_action :: "env \<Rightarrow> app \<Rightarrow> fs \<Rightarrow> msgbox list \<times> app \<times> fs" where
  "process_archive_action ev a fs =
     (if length (file_list a) = 0 then
        ([Warning ''Error'' ''Please drag files into the list or click Add Files.''], a, fs)
      else if destination_path a = [] then
        ([Warning ''Error'' ''Please set a destination path.''], a, fs)
      else
        let files = file_list a;
            fmt = combo_format a;
            pwd = line_password a;
            recursive = check_recursive a;
            exclude_ext = strip (line_exclude a);
            a1 = a\<lparr>status_label := ''Processing...''\<rparr>;
            done = (\<lambda>r. case r of
                      (Inr u, fs') \<Rightarrow>
                        ([Information ''Success'' ''Archive created successfully.''],
                         a1\<lparr>file_list := [], destination_path := [], line_password := [],
                            status_label := ''Ready''\<rparr>, fs')
                    | (Inl e, fs') \<Rightarrow>
                        ([Critical ''Error'' (str e)], a1\<lparr>status_label := ''Error''\<rparr>, fs'))
        in
          if fmt = ''Zip'' then
            done (create_zip ev files (destination_path a) pwd recursive (Some exclude_ext) fs)
          else if fmt = ''Tar'' then
            done (create_tar ev files (destination_path a) recursive (Some exclude_ext) fs)
          else if fmt = ''Gzip'' then
            done (create_single_compress ev (hd files) (destination_path a) Gzip fs)
          else if fmt = ''Bzip2'' then
            done (create_single_compress ev (hd files) (destination_path a) Bzip2 fs)
          else if fmt = ''Xz'' then
            done (create_single_compress ev (hd files) (destination_path a) Lzma fs)
          else
            ([Information ''Info'' (fmt @ '' creation requires external binaries.'')],
             a1\<lparr>status_label := ''Ready''\<rparr>, fs))"

section \<open>Deleting a member of a tar archive\<close>

text \<open>
  The index of the last element of a list that satisfies a test: the search of
  \<^verbatim>\<open>TarFile._getmember\<close>, which goes through the members from the last to the first.
\<close>

fun last_index :: "('a \<Rightarrow> bool) \<Rightarrow> 'a list \<Rightarrow> nat option" where
  "last_index P [] = None"
| "last_index P (x # xs) =
     (case last_index P xs of Some i \<Rightarrow> Some (Suc i) | None \<Rightarrow> if P x then Some 0 else None)"

text \<open>
  \<^verbatim>\<open>TarFile._find_link_target\<close> for the link at position \<open>i\<close>: the name looked for
  and the position of the member found. A symbolic link is looked for in the whole
  archive, under its own directory joined with its link name; a hard link among the
  members before it, under its link name. Names are compared after
  \<^verbatim>\<open>os.path.normpath\<close>.
\<close>

definition find_link_target :: "tarinfo list \<Rightarrow> nat \<Rightarrow> string \<times> nat option" where
  "find_link_target members i =
     (let tarinfo = members ! i;
          target = (if issym tarinfo
                    then sep_join (filter (\<lambda>x. x \<noteq> []) [dirname (name tarinfo), linkname tarinfo])
                    else linkname tarinfo);
          limit = (if issym tarinfo then members else take i members)
      in (target, last_index (\<lambda>m. normpath (name m) = normpath target) limit))"

text \<open>
  \<^verbatim>\<open>tf_in.extractfile(member)\<close> for the member at position \<open>i\<close>: the exception it
  raises, if any. For a file it returns a file object and for a directory \<^verbatim>\<open>None\<close>;
  for a link it calls itself on the link's target, and raises \<^verbatim>\<open>KeyError\<close> when the
  archive does not hold the target. The first argument bounds the depth of these calls;
  started with the number of members it runs out exactly when the links form a cycle, on
  which the interpreter raises \<^verbatim>\<open>RecursionError\<close>. (The interpreter's own limit, which
  a chain of several hundred links would reach, is not represented.)
\<close>

fun extractfile :: "nat \<Rightarrow> tarinfo list \<Rightarrow> nat \<Rightarrow> exn option" where
  "extractfile 0 members i = Some RecursionError"
| "extractfile (Suc k) members i =
     (if islink (members ! i) then
        (case find_link_target members i of
           (target, None) \<Rightarrow> Some (KeyError (''linkname '' @ py_repr target @ '' not found''))
         | (target, Some j) \<Rightarrow> extractfile k members j)
      else None)"

text \<open>
  The loop of \<^verbatim>\<open>delete_from_archive\<close> over the positions of the members: every
  member whose name differs from \<open>filename_to_del\<close> is added to \<open>tf_out\<close> as it is,
  after \<^verbatim>\<open>extractfile\<close> has returned. When \<^verbatim>\<open>extractfile\<close> raises, the members
  already written stay in \<open>tf_out\<close>.
\<close>

fun copy_members :: "tarinfo list \<Rightarrow> string \<Rightarrow> nat list \<Rightarrow> tarinfo list \<Rightarrow> (exn + unit) \<times> tarinfo list" where
  "copy_members members filename_to_del [] tf_out = (Inr (), tf_out)"
| "copy_members members filename_to_del (i # rest) tf_out =
     (let member = members ! i in
      if name member \<noteq> filename_to_del then
        (case extractfile (length members) members i of
           Some e \<Rightarrow> (Inl e, tf_out)
         | None \<Rightarrow> copy_members members filename_to_del rest (tf_out @ [member]))
      else copy_members members filename_to_del rest tf_out)"

text \<open>
  What the file of a tar archive opened for writing holds when it is closed on an
  exception, without the end marker: nothing at all when no member was written, else an
  archive of the members written.
\<close>

definition partial_tar :: "tarinfo list \<Rightarrow> content" where
  "partial_tar tf_out = (if tf_out = [] then Raw [] else Tar tf_out)"

text \<open>
  The two nested \<^verbatim>\<open>with\<close> blocks: the source is opened for reading, then the
  temporary archive for writing, which creates it; then \<^verbatim>\<open>getmembers()\<close> scans the
  source and the members are copied. Leaving the blocks normally closes the temporary
  archive with its end marker; leaving them on an exception closes its file as it is.
\<close>

definition repack_copy :: "env \<Rightarrow> path \<Rightarrow> string \<Rightarrow> fs \<Rightarrow> (exn + unit) \<times> fs" where
  "repack_copy ev arc_path filename_to_del fs =
     (let temp_path = arc_path @ ''.tmp'' in
      case tarfile_open_r ev fs arc_path of
        Inl e \<Rightarrow> (Inl e, fs)
      | Inr tf_in \<Rightarrow>
          (case open_wb ev fs temp_path of
             Some e \<Rightarrow> (Inl e, fs)
           | None \<Rightarrow>
               (case getmembers tf_in of
                  Inl e \<Rightarrow> (Inl e, fs(temp_path \<mapsto> File (Raw [])))
                | Inr members \<Rightarrow>
                    (case copy_members members filename_to_del [0..<length members] [] of
                       (Inl e, tf_out) \<Rightarrow> (Inl e, fs(temp_path \<mapsto> File (partial_tar tf_out)))
                     | (Inr u, tf_out) \<Rightarrow> (Inr (), fs(temp_path \<mapsto> File (Tar tf_out)))))))"

text \<open>
  \<^verbatim>\<open>shutil.copy2(src, dst)\<close> as far as the content goes: the same file is refused,
  the source is opened, then the destination, which is overwritten.
\<close>

definition copy2 :: "env \<Rightarrow> path \<Rightarrow> path \<Rightarrow> fs \<Rightarrow> (exn + unit) \<times> fs" where
  "copy2 ev src dst fs =
     (if fs src \<noteq> None \<and> abspath ev src = abspath ev dst then
        (Inl (ShutilError (py_repr src @ '' and '' @ py_repr dst @ '' are the same file'')), fs)
      else case open_rb ev fs src of
             Inl e \<Rightarrow> (Inl e, fs)
           | Inr c \<Rightarrow>
               (case open_wb ev fs dst of
                  Some e \<Rightarrow> (Inl e, fs)
                | None \<Rightarrow> (Inr (), fs(dst \<mapsto> File c))))"

text \<open>\<^verbatim>\<open>os.unlink(p)\<close>.\<close>

definition os_unlink :: "env \<Rightarrow> path \<Rightarrow> fs \<Rightarrow> (exn + unit) \<times> fs" where
  "os_unlink ev p fs =
     (case fs p of
        None \<Rightarrow> (Inl (FileNotFoundError p), fs)
      | Some (Dir kids) \<Rightarrow> (Inl (IsADirectoryError p), fs)
      | Some (File c) \<Rightarrow>
          if unlink_refused ev p then (Inl (PermissionError p), fs) else (Inr (), fs(p := None)))"

text \<open>
  Whether \<^verbatim>\<open>os.rename(src, dst)\<close> succeeds: the source exists, the operating system
  does not refuse, and a directory is not renamed onto a file. (\<^verbatim>\<open>shutil.move\<close> never
  renames onto a directory.)
\<close>

definition rename_ok :: "env \<Rightarrow> fs \<Rightarrow> path \<Rightarrow> path \<Rightarrow> bool" where
  "rename_ok ev fs src dst =
     (case fs src of
        None \<Rightarrow> False
      | Some (File c) \<Rightarrow> \<not> rename_refused ev src dst
      | Some (Dir kids) \<Rightarrow> \<not> rename_refused ev src dst \<and> fs dst = None)"

text \<open>
  \<^verbatim>\<open>shutil.move(src, dst)\<close>. A destination that is a directory takes the source
  under its base name, which must not exist there. Then \<^verbatim>\<open>os.rename\<close> is tried, which
  replaces the destination and removes the source name in one step. When it raises, a
  source that is a file is copied over the destination with \<^verbatim>\<open>copy2\<close> and then
  removed with \<^verbatim>\<open>os.unlink\<close>; each of the two can raise, the second one with the
  destination already overwritten. (For a source that is a directory the fall-back copies
  the tree; its own failures are not represented. \<^verbatim>\<open>delete_from_archive\<close> moves the
  file it has just written.)
\<close>

definition shutil_move :: "env \<Rightarrow> path \<Rightarrow> path \<Rightarrow> fs \<Rightarrow> (exn + unit) \<times> fs" where
  "shutil_move ev src dst fs =
     (let into_dir = (case fs dst of Some (Dir kids) \<Rightarrow> True | _ \<Rightarrow> False);
          real_dst = (if into_dir then join dst (basename (rstrip_sep src)) else dst)
      in if into_dir \<and> fs src \<noteq> None \<and> abspath ev src = abspath ev dst then (Inr (), fs)
         else if into_dir \<and> fs real_dst \<noteq> None then
           (Inl (ShutilError (''Destination path '' @ [CHR 0x27] @ real_dst @ [CHR 0x27] @
                              '' already exists'')), fs)
         else if rename_ok ev fs src real_dst then
           (Inr (), (fs(real_dst := fs src))(src := None))
         else
           (case fs src of
              Some (Dir kids) \<Rightarrow>
                if fs real_dst \<noteq> None then (Inl (FileExistsError real_dst), fs)
                else (Inr (), (fs(real_dst := fs src))(src := None))
            | _ \<Rightarrow>
                (case copy2 ev src real_dst fs of
                   (Inl e, fs') \<Rightarrow> (Inl e, fs')
                 | (Inr u, fs') \<Rightarrow> os_unlink ev src fs')))"

text \<open>The body of the \<^verbatim>\<open>try\<close> block: the copy, then the move.\<close>

definition repack :: "env \<Rightarrow> path \<Rightarrow> string \<Rightarrow> fs \<Rightarrow> (exn + unit) \<times> fs" where
  "repack ev arc_path filename_to_del fs =
     (case repack_copy ev arc_path filename_to_del fs of
        (Inl e, fs') \<Rightarrow> (Inl e, fs')
      | (Inr u, fs') \<Rightarrow> shutil_move ev (arc_path @ ''.tmp'') arc_path fs')"

text \<open>
  \<^verbatim>\<open>delete_from_archive\<close>. \<open>reply\<close> is the answer to the confirmation dialog. The
  result is the message boxes shown and the file system left. On an exception the handler
  shows the message box and does nothing else. After a success the archive is listed
  again, which reads it only.
\<close>

definition delete_from_archive :: "env \<Rightarrow> app \<Rightarrow> bool \<Rightarrow> fs \<Rightarrow> msgbox list \<times> fs" where
  "delete_from_archive ev a reply fs =
     (let arc_path = line_manage_path a in
      case current_row_name a of
        None \<Rightarrow> ([], fs)
      | Some filename_to_del \<Rightarrow>
          if reply then
            (case repack ev arc_path filename_to_del fs of
               (Inr u, fs') \<Rightarrow> ([Information ''Success'' ''File Deleted.''], fs')
             | (Inl e, fs') \<Rightarrow> ([Critical ''Error'' (''Failed to repack: '' @ str e)], fs'))
          else ([], fs))"

section \<open>Extracting an archive\<close>

text \<open>
  \<^verbatim>\<open>zipfile.ZipFile(src, 'r')\<close> and \<^verbatim>\<open>tarfile.open(src, 'r:gz')\<close>.
\<close>

definition zipfile_open_r :: "env \<Rightarrow> fs \<Rightarrow> path \<Rightarrow> exn + encryption option \<times> zipinfo list" where
  "zipfile_open_r ev fs p =
     (case open_rb ev fs p of
        Inl e \<Rightarrow> Inl e
      | Inr (Zip enc infos) \<Rightarrow> Inr (enc, infos)
      | Inr c \<Rightarrow> Inl (BadZipFile ''File is not a zip file''))"

definition tarfile_open_gz :: "env \<Rightarrow> fs \<Rightarrow> path \<Rightarrow> exn + tarfile" where
  "tarfile_open_gz ev fs p =
     (case open_rb ev fs p of
        Inl e \<Rightarrow> Inl e
      | Inr (Packed Gzip c) \<Rightarrow> tar_decode ev p c
      | Inr (Raw []) \<Rightarrow> Inl (ReadError ''empty file'')
      | Inr c \<Rightarrow> Inl (ReadError ''not a gzip file''))"

text \<open>
  Creating a directory at the target of a directory member: nothing to do when one is
  there, an error when a file is.
\<close>

definition make_dir :: "path \<Rightarrow> fs \<Rightarrow> (exn + unit) \<times> fs" where
  "make_dir p fs =
     (case fs p of
        Some (Dir kids) \<Rightarrow> (Inr (), fs)
      | Some (File c) \<Rightarrow> (Inl (FileExistsError p), fs)
      | None \<Rightarrow> (Inr (), fs(p \<mapsto> Dir [])))"

text \<open>
  \<^verbatim>\<open>ZipFile.extract\<close> of one entry without a password: empty, \<^verbatim>\<open>.\<close> and
  \<^verbatim>\<open>..\<close> components are removed from the name, the target is the normalised join
  with the destination; a directory entry (its name ends with a slash) is created, an
  entry of an encrypted archive raises \<^verbatim>\<open>RuntimeError\<close>, any other is written.
\<close>

definition zip_extract :: "env \<Rightarrow> encryption option \<Rightarrow> path \<Rightarrow> zipinfo \<Rightarrow> fs \<Rightarrow> (exn + unit) \<times> fs" where
  "zip_extract ev enc dest member fs =
     (let arcname = sep_join (filter (\<lambda>x. x \<noteq> [] \<and> x \<noteq> ''.'' \<and> x \<noteq> ''..'')
                                (split_sep (zip_filename member)));
          targetpath = normpath (join dest arcname)
      in if arcname = [] \<and> \<not> endswith (zip_filename member) ''/'' then
           (Inl (ValueError ''Empty filename.''), fs)
         else if endswith (zip_filename member) ''/'' then make_dir targetpath fs
         else if enc \<noteq> None then
           (Inl (RuntimeError (''File '' @ zip_filename member @
                               '' is encrypted, password required for extraction'')), fs)
         else
           (case open_wb ev fs targetpath of
              Some e \<Rightarrow> (Inl e, fs)
            | None \<Rightarrow> (Inr (), fs(targetpath \<mapsto> File (zip_data member)))))"

text \<open>
  \<^verbatim>\<open>zf.extractall(dest, members=members)\<close>, \<open>members\<close> being names: each name is
  looked up (the last entry of that name) and extracted.
\<close>

fun zip_extractall :: "env \<Rightarrow> encryption option \<Rightarrow> zipinfo list \<Rightarrow> path \<Rightarrow> string list \<Rightarrow> fs
    \<Rightarrow> (exn + unit) \<times> fs" where
  "zip_extractall ev enc infos dest [] fs = (Inr (), fs)"
| "zip_extractall ev enc infos dest (m # members) fs =
     (case find (\<lambda>z. zip_filename z = m) (rev infos) of
        None \<Rightarrow> zip_extractall ev enc infos dest members fs
      | Some member \<Rightarrow>
          (case zip_extract ev enc dest member fs of
             (Inl e, fs') \<Rightarrow> (Inl e, fs')
           | (Inr u, fs') \<Rightarrow> zip_extractall ev enc infos dest members fs'))"

text \<open>
  \<^verbatim>\<open>TarFile._extract_member\<close> for the member at position \<open>i\<close> and a target path. A
  file is written and a directory is created. A link cannot be made in this file
  system, and \<^verbatim>\<open>makelink\<close> falls back on extracting the link's target at the same
  path: for a symbolic link after it has removed a file found at the path; a target that
  the archive does not hold makes the member be passed over, except that
  \<^verbatim>\<open>KeyError\<close> is raised for a hard link whose target is neither on disk nor in the
  archive (\<open>direct\<close>). The first argument bounds the chain of links as for
  \<^verbatim>\<open>extractfile\<close>.
\<close>

definition tar_make :: "env \<Rightarrow> tarinfo \<Rightarrow> path \<Rightarrow> fs \<Rightarrow> (exn + unit) \<times> fs" where
  "tar_make ev m targetpath fs =
     (if isdir m then make_dir targetpath fs
      else case open_wb ev fs targetpath of
             Some e \<Rightarrow> (Inl e, fs)
           | None \<Rightarrow> (Inr (), fs(targetpath \<mapsto> File (payload m))))"

fun extract_member :: "nat \<Rightarrow> env \<Rightarrow> tarinfo list \<Rightarrow> nat \<Rightarrow> bool \<Rightarrow> path \<Rightarrow> fs \<Rightarrow> (exn + unit) \<times> fs" where
  "extract_member 0 ev members i direct targetpath fs = (Inl RecursionError, fs)"
| "extract_member (Suc k) ev members i direct targetpath fs =
     (let m = members ! i in
      if islink m then
        (let fs1 = (if issym m then
                      (case fs targetpath of
                         Some (File c) \<Rightarrow>
                           if unlink_refused ev targetpath then fs else fs(targetpath := None)
                       | _ \<Rightarrow> fs)
                    else fs)
         in case find_link_target members i of
              (target, None) \<Rightarrow>
                (if direct then Inl (KeyError (''linkname '' @ py_repr target @ '' not found''))
                 else Inr (), fs1)
            | (target, Some j) \<Rightarrow> extract_member k ev members j False targetpath fs1)
      else tar_make ev m targetpath fs)"

text \<open>
  \<^verbatim>\<open>tf.extractall(dest, members=members)\<close> without an extraction filter, the members
  given by their positions: each is extracted at the destination joined with its name.
\<close>

fun tar_extractall :: "env \<Rightarrow> path \<Rightarrow> tarinfo list \<Rightarrow> nat list \<Rightarrow> fs \<Rightarrow> (exn + unit) \<times> fs" where
  "tar_extractall ev dest members [] fs = (Inr (), fs)"
| "tar_extractall ev dest members (i # rest) fs =
     (let m = members ! i;
          targetpath = rstrip_sep (join dest (name m));
          direct = (islink m \<and> \<not> issym m \<and> fs (join dest (linkname m)) = None)
      in case extract_member (length members) ev members i direct targetpath fs of
           (Inl e, fs') \<Rightarrow> (Inl e, fs')
         | (Inr u, fs') \<Rightarrow> tar_extractall ev dest members rest fs')"

text \<open>
  The branches of \<^verbatim>\<open>run_extraction\<close>. The zip branch, with its inner handler: a
  \<^verbatim>\<open>RuntimeError\<close> whose text mentions encryption or a bad password ends in a warning
  box and is not raised again.
\<close>

definition extract_zip :: "env \<Rightarrow> path \<Rightarrow> path \<Rightarrow> string option \<Rightarrow> fs \<Rightarrow> (exn + msgbox list) \<times> fs" where
  "extract_zip ev src dest exclude fs =
     (case zipfile_open_r ev fs src of
        Inl e \<Rightarrow> (Inl e, fs)
      | Inr (enc, infos) \<Rightarrow>
          (let members = filter (\<lambda>m. \<not> should_exclude m exclude) (map zip_filename infos) in
           case zip_extractall ev enc infos dest members fs of
             (Inr u, fs') \<Rightarrow> (Inr [], fs')
           | (Inl (RuntimeError msg), fs') \<Rightarrow>
               if contains ''encrypted'' msg \<or> contains ''Bad password'' msg
               then (Inr [Warning ''Encrypted Zip''
                            ''This file is encrypted. Please use macOS Finder to extract it.''], fs')
               else (Inl (RuntimeError msg), fs')
           | (Inl e, fs') \<Rightarrow> (Inl e, fs')))"

text \<open>The two tar branches, for \<^verbatim>\<open>'r:'\<close> and \<^verbatim>\<open>'r:gz'\<close>.\<close>

definition extract_tar :: "env \<Rightarrow> (exn + tarfile) \<Rightarrow> path \<Rightarrow> string option \<Rightarrow> fs
    \<Rightarrow> (exn + msgbox list) \<times> fs" where
  "extract_tar ev opened dest exclude fs =
     (case opened of
        Inl e \<Rightarrow> (Inl e, fs)
      | Inr tf \<Rightarrow>
          (case getmembers tf of
             Inl e \<Rightarrow> (Inl e, fs)
           | Inr all_members \<Rightarrow>
               (let members = filter (\<lambda>i. \<not> should_exclude (name (all_members ! i)) exclude)
                                [0..<length all_members] in
                case tar_extractall ev dest all_members members fs of
                  (Inl e, fs') \<Rightarrow> (Inl e, fs')
                | (Inr u, fs') \<Rightarrow> (Inr [], fs'))))"

text \<open>
  The plain gzip branch. The output name is the base name of the source with
  \<^verbatim>\<open>.replace('.gz', '')\<close> applied, joined to the destination. The source is opened,
  then the output, and the first read decides whether the source is a gzip stream; an
  empty source reads as empty data.
\<close>

definition extract_gz :: "env \<Rightarrow> path \<Rightarrow> path \<Rightarrow> fs \<Rightarrow> (exn + msgbox list) \<times> fs" where
  "extract_gz ev src dest fs =
     (let out_name = join dest (replace (basename src) ''.gz'' []) in
      case open_rb ev fs src of
        Inl e \<Rightarrow> (Inl e, fs)
      | Inr c \<Rightarrow>
          (case open_wb ev fs out_name of
             Some e \<Rightarrow> (Inl e, fs)
           | None \<Rightarrow>
               (case c of
                  Packed Gzip d \<Rightarrow> (Inr [], fs(out_name \<mapsto> File d))
                | Raw [] \<Rightarrow> (Inr [], fs(out_name \<mapsto> File (Raw [])))
                | _ \<Rightarrow> (Inl (BadGzipFile (format_error ev src)), fs(out_name \<mapsto> File (Raw []))))))"

text \<open>
  \<^verbatim>\<open>run_extraction\<close>: the chain of suffix tests in the order of the source, which has
  no final \<^verbatim>\<open>else\<close>; the success box follows the chain.
\<close>

definition run_extraction :: "env \<Rightarrow> app \<Rightarrow> fs \<Rightarrow> msgbox list \<times> fs" where
  "run_extraction ev a fs =
     (let src = line_extract_src a;
          dest = line_extract_dest a;
          exclude = strip (line_extract_exclude a)
      in if fs src = None \<or> dest = [] then
           ([Warning ''Missing Info'' ''Please select source file and destination folder.''], fs)
         else
           (case (if endswith src ''.zip'' then extract_zip ev src dest (Some exclude) fs
                  else if endswith src ''.tar'' then
                    extract_tar ev (tarfile_open_r ev fs src) dest (Some exclude) fs
                  else if endswith src ''.tar.gz'' \<or> endswith src ''.tgz'' then
                    extract_tar ev (tarfile_open_gz ev fs src) dest (Some exclude) fs
                  else if endswith src ''.gz'' then extract_gz ev src dest fs
                  else (Inr [], fs)) of
              (Inl e, fs') \<Rightarrow> ([Critical ''Error'' (str e)], fs')
            | (Inr boxes, fs') \<Rightarrow>
                (boxes @ [Information ''Success'' ''Extraction complete.''], fs')))"

section \<open>Concrete inputs\<close>

text \<open>
  An environment without faults, \<open>ev0\<close>, and one that refuses the rename onto
  \<^verbatim>\<open>/t/y.tar\<close> and the removal of \<^verbatim>\<open>/t/y.tar.tmp\<close>, \<open>ev_move\<close>. An archive of
  two files with, between them, a symbolic link to \<^verbatim>\<open>/etc/hostname\<close>, which the
  archive does not hold; an archive of the two files alone; the same cut short in the
  data of the second file; and a widget state.
\<close>

definition ev0 :: env where
  "ev0 = \<lparr>HAS_PYZIPPER = False, cwd = ''/'', denied = (\<lambda>p. False),
           rename_refused = (\<lambda>src dst. False), unlink_refused = (\<lambda>p. False),
           format_error = (\<lambda>p. ''invalid header''), zip_exe = None\<rparr>"

definition ev_move :: env where
  "ev_move = ev0\<lparr>rename_refused := (\<lambda>src dst. dst = ''/t/y.tar''),
                  unlink_refused := (\<lambda>p. p = ''/t/y.tar.tmp'')\<rparr>"

definition members1 :: "tarinfo list" where
  "members1 = [TarInfo ''a.txt'' False (Raw ''A''), TarLink ''l'' True ''/etc/hostname'',
               TarInfo ''b.txt'' False (Raw ''B'')]"

definition members2 :: "tarinfo list" where
  "members2 = [TarInfo ''a.txt'' False (Raw ''A''), TarInfo ''b.txt'' False (Raw ''B'')]"

definition fs1 :: fs where
  "fs1 = [''/t/x.tar'' \<mapsto> File (Tar members1), ''/t/y.tar'' \<mapsto> File (Tar members2),
          ''/t/z.tar'' \<mapsto> File (TarCut [TarInfo ''a.txt'' False (Raw ''A'')]
                                           (TarInfo ''b.txt'' False (Raw ''B'')))]"

definition app0 :: app where
  "app0 = \<lparr>file_list = [], combo_format = ''Tar'', destination_path = [],
     line_password = [], check_recursive = False, line_exclude = [], status_label = ''Ready'',
     line_extract_src = [], line_extract_dest = [], line_extract_exclude = [],
     line_manage_path = [], current_row_name = None\<rparr>"

text \<open>
  Two plain files, a directory with a file and a subdirectory, and the inputs of the
  extraction examples.
\<close>

definition fs2 :: fs where
  "fs2 = [''/tmp/a.txt'' \<mapsto> File (Raw ''A''), ''/tmp/b.tmp'' \<mapsto> File (Raw ''B'')]"

definition fs3 :: fs where
  "fs3 = [''/tmp/d'' \<mapsto> Dir [(''a.txt'', File (Raw ''A'')),
                                (''sub'', Dir [(''b.txt'', File (Raw ''B''))])]]"

definition fs4 :: fs where
  "fs4 = [''/tmp/a.rar'' \<mapsto> File (Raw ''R''), ''/out'' \<mapsto> Dir [],
          ''/tmp/data.gz.bak.gz'' \<mapsto> File (Packed Gzip (Raw ''D''))]"

text \<open>
  A stand-in for the system's \<^verbatim>\<open>zip\<close> program on arguments that are regular files:
  \<^verbatim>\<open>zip -h\<close> succeeds; \<^verbatim>\<open>zip -P pwd -r dest files...\<close> stores each file under its
  path without the leading slash, \<^verbatim>\<open>-j\<close> under its base name, encrypted with the
  password; no file to store is exit status 12.
\<close>

definition zip_files_only :: "string list \<Rightarrow> fs \<Rightarrow> int \<times> fs" where
  "zip_files_only argv fs =
     (if argv = [''zip'', ''-h''] then (0, fs)
      else if 5 < length argv \<and> take 2 argv = [''zip'', ''-P''] then
        (let pwd = argv ! 2; flag = argv ! 3; dest = argv ! 4;
             entries = concat (map (\<lambda>f. case fs f of
                           Some (File c) \<Rightarrow> [ZipInfo (if flag = ''-j'' then basename f else lstrip_sep f) c]
                         | _ \<Rightarrow> []) (drop 5 argv))
         in if entries = [] then (12, fs)
            else (0, fs(dest \<mapsto> File (Zip (Some (ZipCrypto pwd)) entries))))
      else (16, fs))"

text \<open>
  \<open>ev_zip\<close>: no \<^verbatim>\<open>pyzipper\<close>, the \<^verbatim>\<open>zip\<close> program installed. \<open>ev_pyz\<close>:
  \<^verbatim>\<open>pyzipper\<close> installed, and \<^verbatim>\<open>/tmp/b.tmp\<close> cannot be opened.
\<close>

definition ev_zip :: env where
  "ev_zip = ev0\<lparr>zip_exe := Some zip_files_only\<rparr>"

definition ev_pyz :: env where
  "ev_pyz = ev0\<lparr>HAS_PYZIPPER := True, denied := (\<lambda>p. p = ''/tmp/b.tmp'')\<rparr>"

section \<open>Properties\<close>

lemma endswith_iff_suffix: "endswith s suf = suffix suf s"
proof
  assume "endswith s suf"
  then have "drop (length s - length suf) s = suf"
    by (simp add: endswith_def)
  then show "suffix suf s"
    by (metis suffix_drop)
next
  assume "suffix suf s"
  then obtain pre where s: "s = pre @ suf"
    by (auto simp: suffix_def)
  then show "endswith s suf"
    by (simp add: endswith_def)
qed

text \<open>
  Claim C4. For every file name and every pattern, \<open>should_exclude\<close> is false when the
  pattern is absent or empty; for a non-empty pattern it is true exactly when the name
  ends with the pattern, as a plain suffix of the character sequence (\<^const>\<open>suffix\<close>:
  the name is some string followed by the pattern).
\<close>

theorem should_exclude_suffix_match:
  "should_exclude filename None = False \<and>
   should_exclude filename (Some []) = False \<and>
   (should_exclude filename (Some (c # cs)) = suffix (c # cs) filename)"
  by (simp add: endswith_iff_suffix)

subsection \<open>Deleting from a tar archive\<close>

text \<open>The copy phase writes to the temporary path only.\<close>

lemma repack_copy_frame:
  "p \<noteq> arc_path @ ''.tmp'' \<Longrightarrow> snd (repack_copy ev arc_path d fs) p = fs p"
  by (simp add: repack_copy_def Let_def split: sum.splits option.splits prod.splits)

text \<open>
  Whatever the outcome of the loop, the output archive holds the accumulator followed by
  an initial part of the members that are kept.
\<close>

lemma copy_members_prefix:
  "copy_members ms d idx out = (r, out') \<Longrightarrow>
     \<exists>k. out' = out @ k \<and> prefix k (filter (\<lambda>m. name m \<noteq> d) (map ((!) ms) idx))"
proof (induction idx arbitrary: out)
  case Nil
  then show ?case by simp
next
  case (Cons i idx)
  show ?case
  proof (cases "name (ms ! i) \<noteq> d")
    case False
    with Cons show ?thesis by (simp add: Let_def)
  next
    case True
    show ?thesis
    proof (cases "extractfile (length ms) ms i")
      case (Some e)
      with True Cons.prems show ?thesis by (simp add: Let_def)
    next
      case None
      with True Cons.prems have "copy_members ms d idx (out @ [ms ! i]) = (r, out')"
        by (simp add: Let_def)
      from Cons.IH [OF this] obtain k where
        "out' = (out @ [ms ! i]) @ k" "prefix k (filter (\<lambda>m. name m \<noteq> d) (map ((!) ms) idx))"
        by blast
      with True have "out' = out @ (ms ! i # k) \<and>
          prefix (ms ! i # k) (filter (\<lambda>m. name m \<noteq> d) (map ((!) ms) (i # idx)))"
        by simp
      then show ?thesis by blast
    qed
  qed
qed

lemma copy_members_ok:
  "list_all (\<lambda>i. extractfile (length ms) ms i = None) idx \<Longrightarrow>
   copy_members ms d idx out = (Inr (), out @ filter (\<lambda>m. name m \<noteq> d) (map ((!) ms) idx))"
  by (induction idx arbitrary: out) (auto simp: Let_def)

lemma extractfile_no_link:
  "i < length ms \<Longrightarrow> \<not> islink (ms ! i) \<Longrightarrow> extractfile (length ms) ms i = None"
  by (cases "length ms") auto

lemma filter_absent: "d \<notin> name ` set ms \<Longrightarrow> filter (\<lambda>m. name m \<noteq> d) ms = ms"
  by (induction ms) auto

text \<open>The loop on the concrete archives.\<close>

lemmas delete_eval = delete_from_archive_def repack_def repack_copy_def tarfile_open_r_def
  tar_decode_def getmembers_def partial_tar_def open_rb_def open_wb_def
  ev0_def ev_move_def app0_def fs1_def Let_def


lemma copy_members1_nothere:
  "copy_members members1 ''nothere.txt'' [0..<length members1] [] =
     (Inl (KeyError (''linkname '' @ py_repr ''/etc/hostname'' @ '' not found'')),
      [TarInfo ''a.txt'' False (Raw ''A'')])"
  by code_simp

lemma copy_members2_a:
  "copy_members members2 ''a.txt'' [0..<length members2] [] =
     (Inr (), [TarInfo ''b.txt'' False (Raw ''B'')])"
  by code_simp

lemma abspath_y: "abspath ev_move ''/t/y.tar.tmp'' \<noteq> abspath ev_move ''/t/y.tar''"
  by code_simp



text \<open>
  Conversely, a run of \<open>delete_from_archive\<close> after which the archive's path holds
  something else has completed the copy phase, which left the path as it was, and has
  reached the move.
\<close>

lemma archive_changed_only_by_move:
  assumes "delete_from_archive ev a reply fs = (boxes, fs')"
      and "fs' (line_manage_path a) \<noteq> fs (line_manage_path a)"
  shows "\<exists>d fs_mid. current_row_name a = Some d \<and> reply \<and>
           repack_copy ev (line_manage_path a) d fs = (Inr (), fs_mid) \<and>
           fs_mid (line_manage_path a) = fs (line_manage_path a)"
proof (cases "current_row_name a")
  case None
  with assms show ?thesis by (simp add: delete_from_archive_def)
next
  case (Some d)
  show ?thesis
  proof (cases reply)
    case False
    with Some assms show ?thesis by (simp add: delete_from_archive_def)
  next
    case True
    obtain r fs_mid where rc: "repack_copy ev (line_manage_path a) d fs = (r, fs_mid)"
      by (cases "repack_copy ev (line_manage_path a) d fs")
    have f1: "fs_mid (line_manage_path a) = fs (line_manage_path a)"
      using repack_copy_frame [of "line_manage_path a" "line_manage_path a" ev d fs] rc by simp
    show ?thesis
    proof (cases r)
      case (Inl e)
      with rc Some True assms f1 show ?thesis
        by (auto simp: delete_from_archive_def repack_def Let_def)
    next
      case (Inr u)
      with rc Some True f1 show ?thesis by simp
    qed
  qed
qed

text \<open>
  The move itself can raise after it has written. Here \<^verbatim>\<open>os.rename\<close> onto
  \<^verbatim>\<open>/t/y.tar\<close> is refused and so is the removal of the temporary file:
  \<^verbatim>\<open>shutil.move\<close> copies the temporary file over the archive and raises at
  \<^verbatim>\<open>os.unlink\<close>. The failure box is shown, the archive holds the new content and the
  temporary file is still there.
\<close>

lemma move_failure_rewrites_archive:
  "delete_from_archive ev_move
     (app0\<lparr>line_manage_path := ''/t/y.tar'', current_row_name := Some ''a.txt''\<rparr>) True fs1 =
     ([Critical ''Error'' (''Failed to repack: '' @ str (PermissionError ''/t/y.tar.tmp''))],
      fs1(''/t/y.tar.tmp'' \<mapsto> File (Tar [TarInfo ''b.txt'' False (Raw ''B'')]),
          ''/t/y.tar'' \<mapsto> File (Tar [TarInfo ''b.txt'' False (Raw ''B'')])))"
  using abspath_y
  by (simp add: delete_eval copy_members2_a shutil_move_def rename_ok_def copy2_def os_unlink_def)

text \<open>
  For an archive without links whose scan succeeds, with the temporary path writable and
  the rename not refused, the deletion succeeds and leaves at the archive's path the
  members whose name differs from the selected one; when no member has that name, these
  are all the members.
\<close>

lemma delete_regular_archive:
  assumes "current_row_name a = Some d"
      and "tarfile_open_r ev fs (line_manage_path a) = Inr (TarFile ms False)"
      and "open_wb ev fs (line_manage_path a @ ''.tmp'') = None"
      and "list_all (\<lambda>m. \<not> islink m) ms"
      and "\<not> rename_refused ev (line_manage_path a @ ''.tmp'') (line_manage_path a)"
  shows "\<exists>fs'. delete_from_archive ev a True fs = ([Information ''Success'' ''File Deleted.''], fs') \<and>
           fs' (line_manage_path a) = Some (File (Tar (filter (\<lambda>m. name m \<noteq> d) ms)))"
proof -
  have "list_all (\<lambda>i. extractfile (length ms) ms i = None) [0..<length ms]"
    using assms(4) by (auto simp: list_all_iff extractfile_no_link)
  from copy_members_ok [OF this, of d "[]"]
  have cm: "copy_members ms d [0..<length ms] [] = (Inr (), filter (\<lambda>m. name m \<noteq> d) ms)"
    by (simp add: map_nth)
  obtain c where arc: "fs (line_manage_path a) = Some (File c)"
    using assms(2)
    by (auto simp: tarfile_open_r_def open_rb_def split: option.splits node.splits if_splits)
  have rc: "repack_copy ev (line_manage_path a) d fs =
        (Inr (), fs(line_manage_path a @ ''.tmp'' \<mapsto> File (Tar (filter (\<lambda>m. name m \<noteq> d) ms))))"
    using assms(2,3) cm by (simp add: repack_copy_def Let_def getmembers_def)
  show ?thesis
    using assms(1,5) rc arc
    by (simp add: delete_from_archive_def repack_def shutil_move_def rename_ok_def Let_def)
qed

lemma delete_absent_regular_archive:
  assumes "current_row_name a = Some d"
      and "tarfile_open_r ev fs (line_manage_path a) = Inr (TarFile ms False)"
      and "open_wb ev fs (line_manage_path a @ ''.tmp'') = None"
      and "list_all (\<lambda>m. \<not> islink m) ms"
      and "\<not> rename_refused ev (line_manage_path a @ ''.tmp'') (line_manage_path a)"
      and "d \<notin> name ` set ms"
  shows "\<exists>fs'. delete_from_archive ev a True fs = ([Information ''Success'' ''File Deleted.''], fs') \<and>
           fs' (line_manage_path a) = Some (File (Tar ms))"
  using delete_regular_archive [OF assms(1-5)] filter_absent [OF assms(6)] by simp

text \<open>
  Claim C3. The claim does not hold of the code. The archive \<^verbatim>\<open>/t/x.tar\<close> holds the
  file \<^verbatim>\<open>a.txt\<close>, the symbolic link \<^verbatim>\<open>l\<close> to \<^verbatim>\<open>/etc/hostname\<close> and the file
  \<^verbatim>\<open>b.txt\<close>; no member is named \<^verbatim>\<open>nothere.txt\<close>. Deleting that name does not
  succeed: the loop calls \<^verbatim>\<open>extractfile\<close> on every member it keeps, which for the
  link looks for the target in the archive and raises \<^verbatim>\<open>KeyError\<close>. The failure box is
  shown, the archive is not repacked and the temporary file stays with the one member
  copied before the link.
\<close>

theorem delete_absent_entry_dangling_link:
  "''nothere.txt'' \<notin> name ` set members1 \<and>
   delete_from_archive ev0
     (app0\<lparr>line_manage_path := ''/t/x.tar'', current_row_name := Some ''nothere.txt''\<rparr>) True fs1 =
     ([Critical ''Error'' (''Failed to repack: '' @
         py_repr (''linkname '' @ py_repr ''/etc/hostname'' @ '' not found''))],
      fs1(''/t/x.tar.tmp'' \<mapsto> File (Tar [TarInfo ''a.txt'' False (Raw ''A'')])))"
  by (simp add: delete_eval copy_members1_nothere) (simp add: members1_def)

text \<open>
  Claim C10. When the archive has been opened and the temporary archive created, and the
  copy phase then raises (in the scan of the source or at a member), \<open>delete_from_archive\<close>
  shows the failure box and leaves the file system as it was before, except that the
  temporary path holds a file: what the temporary archive had received when the exception
  came, an initial part of the members to keep. The handler removes nothing.
\<close>

theorem delete_failure_leaves_temp:
  assumes "current_row_name a = Some d"
      and "tarfile_open_r ev fs (line_manage_path a) = Inr tf_in"
      and "open_wb ev fs (line_manage_path a @ ''.tmp'') = None"
      and "repack_copy ev (line_manage_path a) d fs = (Inl e, fs_mid)"
  shows "delete_from_archive ev a True fs =
           ([Critical ''Error'' (''Failed to repack: '' @ str e)], fs_mid) \<and>
         (\<exists>tf_out. prefix tf_out (filter (\<lambda>m. name m \<noteq> d) (tf_members tf_in)) \<and>
            fs_mid = fs(line_manage_path a @ ''.tmp'' \<mapsto> File (partial_tar tf_out)))"
proof -
  from assms(1,4) have box: "delete_from_archive ev a True fs =
           ([Critical ''Error'' (''Failed to repack: '' @ str e)], fs_mid)"
    by (simp add: delete_from_archive_def repack_def Let_def)
  have "\<exists>tf_out. prefix tf_out (filter (\<lambda>m. name m \<noteq> d) (tf_members tf_in)) \<and>
            fs_mid = fs(line_manage_path a @ ''.tmp'' \<mapsto> File (partial_tar tf_out))"
  proof (cases "getmembers tf_in")
    case (Inl x)
    with assms have "fs_mid = fs(line_manage_path a @ ''.tmp'' \<mapsto> File (partial_tar []))"
      by (simp add: repack_copy_def Let_def partial_tar_def)
    then show ?thesis by (intro exI [of _ "[]"]) simp
  next
    case (Inr members)
    then have mem: "members = tf_members tf_in"
      by (simp add: getmembers_def split: if_splits)
    obtain r out where cm: "copy_members members d [0..<length members] [] = (r, out)"
      by (cases "copy_members members d [0..<length members] []")
    from copy_members_prefix [OF cm]
    have pre: "prefix out (filter (\<lambda>m. name m \<noteq> d) members)"
      by (simp add: map_nth)
    from assms Inr cm have "fs_mid = fs(line_manage_path a @ ''.tmp'' \<mapsto> File (partial_tar out))"
      by (cases r) (simp_all add: repack_copy_def Let_def)
    with pre mem show ?thesis by blast
  qed
  with box show ?thesis by simp
qed

text \<open>
  An instance: the archive \<^verbatim>\<open>/t/z.tar\<close> is cut inside its second member. The scan
  raises before any member is copied and the temporary file is left empty.
\<close>

theorem delete_failure_leaves_temp_witness:
  "delete_from_archive ev0
     (app0\<lparr>line_manage_path := ''/t/z.tar'', current_row_name := Some ''a.txt''\<rparr>) True fs1 =
     ([Critical ''Error'' (''Failed to repack: '' @ str (ReadError ''unexpected end of data''))],
      fs1(''/t/z.tar.tmp'' \<mapsto> File (Raw []))) \<and>
   (\<exists>tf_out. prefix tf_out (filter (\<lambda>m. name m \<noteq> ''a.txt'')
                  [TarInfo ''a.txt'' False (Raw ''A''), TarInfo ''b.txt'' False (Raw ''B'')]) \<and>
      fs1(''/t/z.tar.tmp'' \<mapsto> File (Raw [])) =
        fs1(''/t/z.tar'' @ ''.tmp'' \<mapsto> File (partial_tar tf_out)))"
proof -
  let ?a = "app0\<lparr>line_manage_path := ''/t/z.tar'', current_row_name := Some ''a.txt''\<rparr>"
  have 1: "current_row_name ?a = Some ''a.txt''" by simp
  have 2: "tarfile_open_r ev0 fs1 (line_manage_path ?a) =
     Inr (TarFile [TarInfo ''a.txt'' False (Raw ''A''), TarInfo ''b.txt'' False (Raw ''B'')] True)"
    by (simp add: delete_eval)
  have 3: "open_wb ev0 fs1 (line_manage_path ?a @ ''.tmp'') = None"
    by (simp add: delete_eval)
  have 4: "repack_copy ev0 (line_manage_path ?a) ''a.txt'' fs1 =
     (Inl (ReadError ''unexpected end of data''), fs1(''/t/z.tar.tmp'' \<mapsto> File (Raw [])))"
    by (simp add: delete_eval)
  from delete_failure_leaves_temp [OF 1 2 3 4] show ?thesis
    by (simp add: app0_def)
qed

subsection \<open>Creating archives\<close>

lemmas path_eval = basename_def dirname_def join_def lstrip_sep_def rstrip_sep_def normpath_def
  norm_step_def abspath_def relpath_def strip_def isspace_def endswith_def Let_def

text \<open>
  The file dialog's path refuses the two files that the drop accepts below.
\<close>

lemma add_files_action_refuses_two:
  "add_files_action (app0\<lparr>combo_format := ''Gzip''\<rparr>) [''/tmp/a.txt'', ''/tmp/b.tmp'']
     = Inr ([Critical ''Error'' ''Gzip allows only ONE input file.''], app0\<lparr>combo_format := ''Gzip''\<rparr>)"
  by (simp add: add_files_action_def config_multi_def FORMAT_CONFIG_def app0_def)

text \<open>
  For Gzip the message boxes and the file system left are those of the same request with
  the first input alone: the other inputs are never read.
\<close>

lemma single_compress_uses_first_input:
  assumes "combo_format a = ''Gzip''" and "file_list a = f # rest" and "destination_path a \<noteq> []"
  shows "fst (process_archive_action ev a fs) =
           fst (process_archive_action ev (a\<lparr>file_list := [f]\<rparr>) fs) \<and>
         snd (snd (process_archive_action ev a fs)) =
           snd (snd (process_archive_action ev (a\<lparr>file_list := [f]\<rparr>) fs))"
  using assms by (simp add: process_archive_action_def Let_def split: prod.splits sum.splits)

text \<open>
  Claim C1. The claim does not hold of the code. With the format Gzip selected, two files
  are dropped on the list: \<open>dropEvent\<close> adds both. \<open>process_archive_action\<close> then
  compresses the first one to the destination and shows the success box; nothing checks
  the number of inputs, and the output file is created.
\<close>

theorem gzip_two_inputs_succeeds:
  "file_list (dropEvent (app0\<lparr>combo_format := ''Gzip''\<rparr>) [''/tmp/a.txt'', ''/tmp/b.tmp''])
     = [''/tmp/a.txt'', ''/tmp/b.tmp''] \<and>
   process_archive_action ev0
     ((dropEvent (app0\<lparr>combo_format := ''Gzip''\<rparr>) [''/tmp/a.txt'', ''/tmp/b.tmp''])
        \<lparr>destination_path := ''/tmp/out.gz''\<rparr>) fs2
     = ([Information ''Success'' ''Archive created successfully.''],
        app0\<lparr>combo_format := ''Gzip''\<rparr>,
        fs2(''/tmp/out.gz'' \<mapsto> File (Packed Gzip (Raw ''A''))))"
  by (simp add: process_archive_action_def dropEvent_def add_file_item_def app0_def
      create_single_compress_def open_rb_def open_wb_def ev0_def fs2_def path_eval)

text \<open>
  The second strategy of \<open>create_zip\<close> never looks at the exclusion pattern: with a
  password and without \<^verbatim>\<open>pyzipper\<close> the result is the same for any two patterns.
\<close>

lemma create_zip_system_ignores_exclude:
  assumes "\<not> HAS_PYZIPPER ev" and "pwd \<noteq> []"
  shows "create_zip ev files dest pwd recursive exclude fs =
         create_zip ev files dest pwd recursive exclude' fs"
  using assms by (simp add: create_zip_def)

text \<open>
  Claim C5. The claim does not hold of the code on the path through the system's
  \<^verbatim>\<open>zip\<close> command. With a password, without \<^verbatim>\<open>pyzipper\<close>, and with the exclusion
  suffix \<^verbatim>\<open>.tmp\<close>, creating a zip from \<^verbatim>\<open>/tmp/a.txt\<close> and \<^verbatim>\<open>/tmp/b.tmp\<close> succeeds
  and the archive holds an entry for \<^verbatim>\<open>b.tmp\<close>, whose name the filter excludes.
  Without the password the in-process writer leaves it out.
\<close>

theorem system_zip_keeps_excluded_entry:
  "create_zip ev_zip [''/tmp/a.txt'', ''/tmp/b.tmp''] ''/tmp/out.zip'' ''pw'' True (Some ''.tmp'') fs2
     = (Inr (), fs2(''/tmp/out.zip'' \<mapsto>
          File (Zip (Some (ZipCrypto ''pw''))
                 [ZipInfo ''tmp/a.txt'' (Raw ''A''), ZipInfo ''tmp/b.tmp'' (Raw ''B'')]))) \<and>
   should_exclude ''tmp/b.tmp'' (Some ''.tmp'') \<and>
   create_zip ev_zip [''/tmp/a.txt'', ''/tmp/b.tmp''] ''/tmp/out.zip'' [] True (Some ''.tmp'') fs2
     = (Inr (), fs2(''/tmp/out.zip'' \<mapsto> File (Zip None [ZipInfo ''a.txt'' (Raw ''A'')])))"
  by (simp add: create_zip_def subprocess_run_def zip_block_def zf_write_def open_wb_def
      ev_zip_def zip_files_only_def ev0_def fs2_def path_eval)

text \<open>Nothing that writes a zip in process depends on the external program.\<close>

lemma open_wb_zip_exe: "open_wb (ev\<lparr>zip_exe := z\<rparr>) fs p = open_wb ev fs p"
  by (simp add: open_wb_def)

lemmas case_congs = option.case_cong node.case_cong sum.case_cong prod.case_cong

lemma zf_write_zip_exe: "zf_write (ev\<lparr>zip_exe := z\<rparr>) p nd arcname zf = zf_write ev p nd arcname zf"
  by (simp add: zf_write_def cong: case_congs)

lemma relpath_zip_exe: "relpath (ev\<lparr>zip_exe := z\<rparr>) p start = relpath ev p start"
  by (simp add: relpath_def abspath_def)

lemma write_filenames_zip_exe:
  "write_filenames (ev\<lparr>zip_exe := z\<rparr>) f exclude root filenames zf =
   write_filenames ev f exclude root filenames zf"
  by (induction ev f exclude root filenames zf rule: write_filenames.induct)
     (simp_all add: zf_write_zip_exe relpath_zip_exe Let_def cong: case_congs)

lemma write_walk_zip_exe:
  "write_walk (ev\<lparr>zip_exe := z\<rparr>) f exclude triples zf = write_walk ev f exclude triples zf"
  by (induction ev f exclude triples zf rule: write_walk.induct)
     (simp_all add: write_filenames_zip_exe cong: case_congs)

lemma write_to_zip_zip_exe:
  "write_to_zip (ev\<lparr>zip_exe := z\<rparr>) fs zf files recursive exclude =
   write_to_zip ev fs zf files recursive exclude"
proof (induction files arbitrary: zf)
  case Nil
  show ?case by simp
next
  case (Cons f files)
  show ?case
    using Cons.IH
    by (auto simp add: write_walk_zip_exe zf_write_zip_exe simp del: walk.simps
        split: option.splits node.splits prod.splits sum.splits)
qed

lemma zip_block_zip_exe:
  "zip_block (ev\<lparr>zip_exe := z\<rparr>) enc files dest recursive exclude fs =
   zip_block ev enc files dest recursive exclude fs"
  by (simp add: zip_block_def open_wb_zip_exe write_to_zip_zip_exe cong: case_congs)

text \<open>
  Claim C6. Let \<^verbatim>\<open>pyzipper\<close> be installed and a password be given, and let the block
  that writes the AES archive raise \<open>e\<close>, leaving the file system \<open>fs'\<close>. Then
  \<open>create_zip\<close> raises the exception whose text is \<^verbatim>\<open>pyzipper error:\<close> followed by
  the text of \<open>e\<close>, and leaves \<open>fs'\<close>. The same holds whatever the external
  \<^verbatim>\<open>zip\<close> program \<open>z\<close> would do, so it is not run; and the destination is either
  untouched or the AES archive of the first strategy, so the standard writer has not run.
\<close>

theorem pyzipper_failure_is_final:
  assumes "HAS_PYZIPPER ev" and "pwd \<noteq> []"
      and "zip_block ev (Some (WZ_AES pwd)) files dest recursive exclude fs = (Inl e, fs')"
  shows "create_zip ev files dest pwd recursive exclude fs =
           (Inl (Exception (''pyzipper error: '' @ str e)), fs') \<and>
         create_zip (ev\<lparr>zip_exe := z\<rparr>) files dest pwd recursive exclude fs =
           (Inl (Exception (''pyzipper error: '' @ str e)), fs') \<and>
         (fs' = fs \<or> (\<exists>zf. fs' = fs(dest \<mapsto> File (Zip (Some (WZ_AES pwd)) zf))))"
proof -
  have 1: "create_zip ev files dest pwd recursive exclude fs =
           (Inl (Exception (''pyzipper error: '' @ str e)), fs')"
    using assms by (simp add: create_zip_def)
  have 2: "create_zip (ev\<lparr>zip_exe := z\<rparr>) files dest pwd recursive exclude fs =
           (Inl (Exception (''pyzipper error: '' @ str e)), fs')"
    using assms by (simp add: create_zip_def zip_block_zip_exe)
  have 3: "fs' = fs \<or> (\<exists>zf. fs' = fs(dest \<mapsto> File (Zip (Some (WZ_AES pwd)) zf)))"
    using assms(3) by (auto simp: zip_block_def split: option.splits prod.splits)
  from 1 2 3 show ?thesis by simp
qed

theorem pyzipper_failure_is_final_witness:
  "create_zip ev_pyz [''/tmp/a.txt'', ''/tmp/b.tmp''] ''/tmp/out.zip'' ''pw'' True (Some []) fs2 =
     (Inl (Exception (''pyzipper error: [Errno 13] Permission denied: '' @ py_repr ''/tmp/b.tmp'')),
      fs2(''/tmp/out.zip'' \<mapsto> File (Zip (Some (WZ_AES ''pw'')) [ZipInfo ''a.txt'' (Raw ''A'')]))) \<and>
   create_zip (ev_pyz\<lparr>zip_exe := Some zip_files_only\<rparr>) [''/tmp/a.txt'', ''/tmp/b.tmp''] ''/tmp/out.zip'' ''pw'' True (Some []) fs2 =
     (Inl (Exception (''pyzipper error: [Errno 13] Permission denied: '' @ py_repr ''/tmp/b.tmp'')),
      fs2(''/tmp/out.zip'' \<mapsto> File (Zip (Some (WZ_AES ''pw'')) [ZipInfo ''a.txt'' (Raw ''A'')])))"
proof -
  have 1: "HAS_PYZIPPER ev_pyz" by (simp add: ev_pyz_def)
  have 2: "''pw'' \<noteq> []" by simp
  have 3: "zip_block ev_pyz (Some (WZ_AES ''pw'')) [''/tmp/a.txt'', ''/tmp/b.tmp''] ''/tmp/out.zip'' True (Some []) fs2 =
    (Inl (PermissionError ''/tmp/b.tmp''),
     fs2(''/tmp/out.zip'' \<mapsto> File (Zip (Some (WZ_AES ''pw'')) [ZipInfo ''a.txt'' (Raw ''A'')])))"
    by (simp add: zip_block_def zf_write_def open_wb_def ev_pyz_def ev0_def fs2_def path_eval)
  from pyzipper_failure_is_final [OF 1 2 3, of "Some zip_files_only"] show ?thesis
    by simp
qed

text \<open>
  Claim C7. The claim does not hold of the code. Creating a tar from the directory
  \<^verbatim>\<open>/tmp/d\<close>, which holds the file \<^verbatim>\<open>a.txt\<close> and the directory \<^verbatim>\<open>sub\<close>, with
  \<open>recursive\<close> false and no exclusion: the archive holds the member \<^verbatim>\<open>d\<close> and the
  member \<^verbatim>\<open>d/a.txt\<close>. The filter drops the subdirectory, and with it what is below,
  but not a file that lies in the directory itself.
\<close>

theorem tar_non_recursive_keeps_files:
  "create_tar ev0 [''/tmp/d''] ''/tmp/out.tar'' False (Some []) fs3
     = (Inr (), fs3(''/tmp/out.tar'' \<mapsto>
          File (Tar [TarInfo ''d'' True (Raw []), TarInfo ''d/a.txt'' False (Raw ''A'')])))"
  by (simp add: create_tar_def open_wb_def ev0_def fs3_def tar_filter_def path_eval)

subsection \<open>Extracting\<close>

text \<open>
  Whenever the source exists, a destination is given and none of the suffix tests holds,
  nothing is written and the success box is shown.
\<close>

lemma run_extraction_unknown_suffix:
  assumes "fs (line_extract_src a) \<noteq> None" and "line_extract_dest a \<noteq> []"
      and "\<not> endswith (line_extract_src a) ''.zip''" and "\<not> endswith (line_extract_src a) ''.tar''"
      and "\<not> endswith (line_extract_src a) ''.tar.gz''" and "\<not> endswith (line_extract_src a) ''.tgz''"
      and "\<not> endswith (line_extract_src a) ''.gz''"
  shows "run_extraction ev a fs = ([Information ''Success'' ''Extraction complete.''], fs)"
  using assms by (simp add: run_extraction_def Let_def)

text \<open>
  Claim C8. The claim does not hold of the code. The source \<^verbatim>\<open>/tmp/a.rar\<close> exists and
  its name ends with none of \<^verbatim>\<open>.zip\<close>, \<^verbatim>\<open>.tar\<close>, \<^verbatim>\<open>.tar.gz\<close>, \<^verbatim>\<open>.tgz\<close>,
  \<^verbatim>\<open>.gz\<close>: \<open>run_extraction\<close> writes nothing and shows the success box.
\<close>

theorem unknown_suffix_reports_success:
  "run_extraction ev0 (app0\<lparr>line_extract_src := ''/tmp/a.rar'', line_extract_dest := ''/out''\<rparr>) fs4
     = ([Information ''Success'' ''Extraction complete.''], fs4)"
  by (simp add: run_extraction_def app0_def fs4_def ev0_def path_eval)

text \<open>
  Claim C9. The claim does not hold of the code. The source
  \<^verbatim>\<open>/tmp/data.gz.bak.gz\<close> is a plain gzip file; its base name without the trailing
  \<^verbatim>\<open>.gz\<close> is \<^verbatim>\<open>data.gz.bak\<close>. \<open>run_extraction\<close> writes the decompressed data to
  \<^verbatim>\<open>/out/data.bak\<close>: the inner \<^verbatim>\<open>.gz\<close> is removed as well.
\<close>

theorem gunzip_removes_every_gz:
  "endswith ''/tmp/data.gz.bak.gz'' ''.gz'' \<and>
   run_extraction ev0
     (app0\<lparr>line_extract_src := ''/tmp/data.gz.bak.gz'', line_extract_dest := ''/out''\<rparr>) fs4
     = ([Information ''Success'' ''Extraction complete.''],
        fs4(''/out/data.bak'' \<mapsto> File (Raw ''D''))) \<and>
   (fs4(''/out/data.bak'' \<mapsto> File (Raw ''D''))) ''/out/data.gz.bak'' = None"
  by (simp add: run_extraction_def extract_gz_def open_rb_def open_wb_def replace.simps
      app0_def fs4_def ev0_def path_eval)

end
